theory Spec2Isabelle
  imports Main "HOL-Library.AList"
begin

section \<open>Python values used by the browser manager\<close>

text \<open>
  The development embeds \<^verbatim>\<open>python/camoufox-server/browser.py\<close>: the class
  \<^verbatim>\<open>TabState\<close> and the methods of \<^verbatim>\<open>CamofoxBrowserManager\<close>.

  A Python \<^verbatim>\<open>dict\<close> keeps its keys in insertion order, and the error messages of
  the manager print \<^verbatim>\<open>list(d.keys())\<close>, so a dict is an association list:
  \<^verbatim>\<open>d.get(k)\<close> is \<open>map_of\<close>, \<^verbatim>\<open>d[k] = v\<close> replaces the value in place when
  the key is there and appends the pair otherwise (\<open>AList.update\<close>),
  \<^verbatim>\<open>d.clear()\<close> is the empty list.
\<close>

type_synonym ('k, 'v) dict = "('k \<times> 'v) list"

definition dict_get :: "('k, 'v) dict \<Rightarrow> 'k \<Rightarrow> 'v option" where
  "dict_get d k = map_of d k"

definition dict_set :: "'k \<Rightarrow> 'v \<Rightarrow> ('k, 'v) dict \<Rightarrow> ('k, 'v) dict" where
  "dict_set k v d = AList.update k v d"

definition dict_keys :: "('k, 'v) dict \<Rightarrow> 'k list" where
  "dict_keys d = map fst d"

text \<open>
  \<^verbatim>\<open>str.lower()\<close> on ASCII text: a capital \<^verbatim>\<open>A-Z\<close> becomes its small letter, 32
  code points further, and every other character is left alone. The role names of an
  accessibility snapshot are ASCII words. Outside ASCII Python lowers more: of the code
  points there only U+212A (the Kelvin sign, lowered to \<^verbatim>\<open>k\<close>) has an ASCII image, and it is
  not modelled.
\<close>

definition lower_char :: "char \<Rightarrow> char" where
  "lower_char c =
     (let n = (of_char c :: nat) in if 65 \<le> n \<and> n \<le> 90 then char_of (n + 32) else c)"

definition lower :: "string \<Rightarrow> string" where
  "lower s = map lower_char s"

text \<open>\<^verbatim>\<open>str(n)\<close> of a natural number: its decimal digits.\<close>

definition digit_char :: "nat \<Rightarrow> char" where
  "digit_char d = char_of (48 + d)"

function str_nat :: "nat \<Rightarrow> string" where
  "str_nat n = (if n < 10 then [digit_char n] else str_nat (n div 10) @ [digit_char (n mod 10)])"
  by pat_completeness auto
termination
  by (relation "measure (\<lambda>n. n)") auto

declare str_nat.simps [simp del]

text \<open>
  \<^verbatim>\<open>repr\<close> of a list of strings, as an f-string prints \<^verbatim>\<open>list(d.keys())\<close>:
  \<^verbatim>\<open>['e1', 'e2']\<close>. The keys printed by the manager are generated identifiers
  (\<^verbatim>\<open>e<N>\<close> and \<^verbatim>\<open>uuid4\<close> strings), which \<^verbatim>\<open>repr\<close> puts between single quotes
  with nothing escaped.
\<close>

definition py_repr_str :: "string \<Rightarrow> string" where
  "py_repr_str s = [CHR 0x27] @ s @ [CHR 0x27]"

fun join_comma :: "string list \<Rightarrow> string" where
  "join_comma [] = []"
| "join_comma [x] = x"
| "join_comma (x # y # ys) = x @ '', '' @ join_comma (y # ys)"

definition py_repr_list :: "string list \<Rightarrow> string" where
  "py_repr_list xs = ''['' @ join_comma (map py_repr_str xs) @ '']''"

section \<open>Tab state\<close>

text \<open>
  \<^verbatim>\<open>class TabState\<close>: the page is the handle of a Playwright page, the counter starts
  at 0 and is only incremented or reset to 0, so it is a natural number. The field
  \<^verbatim>\<open>id\<close> is written \<open>id'\<close>, since \<open>id\<close> is the identity function of HOL.
\<close>

type_synonym page = nat

record TabState =
  id' :: string
  page :: page
  url :: string
  element_map :: "(string, string) dict"
  ref_counter :: nat

definition new_TabState :: "string \<Rightarrow> page \<Rightarrow> string \<Rightarrow> TabState" where
  "new_TabState i p u =
     \<lparr>id' = i, page = p, url = u, element_map = [], ref_counter = 0\<rparr>"

section \<open>The accessibility projector\<close>

text \<open>
  A node of Playwright's accessibility snapshot is a dict with the keys
  \<^verbatim>\<open>role\<close>, \<^verbatim>\<open>name\<close> and \<^verbatim>\<open>children\<close>, each of which may be missing; an entry of
  \<^verbatim>\<open>children\<close> may be \<^verbatim>\<open>None\<close>. The projected node is the dict \<^verbatim>\<open>result\<close>:
  \<^verbatim>\<open>role\<close> and \<^verbatim>\<open>name\<close> always, \<^verbatim>\<open>elementRef\<close> and \<^verbatim>\<open>children\<close> when they were
  assigned.
\<close>

datatype raw_node =
  RawNode (raw_role: "string option") (raw_name: "string option")
          (raw_children: "raw_node option list option")

datatype acc_node =
  AccNode (out_role: string) (out_name: "string option")
          (out_elementRef: "string option") (out_children: "acc_node list option")

definition interactive_roles :: "string set" where
  "interactive_roles =
     {''button'', ''link'', ''textbox'', ''checkbox'', ''radio'',
      ''combobox'', ''menuitem'', ''tab'', ''switch'', ''searchbox'',
      ''navigation'', ''menubar'', ''menu'', ''menuitemcheckbox'',
      ''menuitemradio'', ''option'', ''progressbar'', ''scrollbar'',
      ''slider'', ''spinbutton'', ''tablist'', ''tabpanel'',
      ''heading'', ''article'', ''section'', ''banner'', ''complementary'',
      ''contentinfo'', ''form'', ''main'', ''region'', ''search'',
      ''paragraph'', ''listitem'', ''img'', ''figure''}"

text \<open>\<^verbatim>\<open>_is_interactive\<close>.\<close>

definition is_interactive :: "string option \<Rightarrow> bool" where
  "is_interactive role =
     (case role of None \<Rightarrow> False | Some r \<Rightarrow> lower r \<in> interactive_roles)"

text \<open>
  The block of \<^verbatim>\<open>_convert_snapshot\<close> under
  \<^verbatim>\<open>if node.get("name") and self._is_interactive(node.get("role"))\<close>: the counter
  is incremented, the reference is \<^verbatim>\<open>f"e{tab.ref_counter}"\<close> and the selector
  \<^verbatim>\<open>text="<name>"\<close> is stored under it. A name that is \<^verbatim>\<open>None\<close> or empty is falsy.
  The result is the value of \<^verbatim>\<open>result["elementRef"]\<close> (\<open>None\<close> when the key is not
  set) and the tab.
\<close>

definition assign_ref :: "string option \<Rightarrow> string option \<Rightarrow> TabState \<Rightarrow> string option \<times> TabState" where
  "assign_ref role name tab =
     (case name of
        None \<Rightarrow> (None, tab)
      | Some nm \<Rightarrow>
          if nm \<noteq> [] \<and> is_interactive role then
            (let c = ref_counter tab + 1;
                 element_ref = ''e'' @ str_nat c;
                 selector = ''text=\"'' @ nm @ ''\"''
             in (Some element_ref,
                 tab\<lparr>ref_counter := c,
                     element_map := dict_set element_ref selector (element_map tab)\<rparr>))
          else (None, tab))"

text \<open>
  \<^verbatim>\<open>_convert_snapshot\<close>. \<open>convert_node\<close> is its body for a node that is not
  \<^verbatim>\<open>None\<close>: the role (default \<^verbatim>\<open>"generic"\<close>) and the name are copied, the
  reference is assigned, and the children are processed when the key is there and
  its list is not empty. \<open>convert_children\<close> is the list comprehension over
  \<^verbatim>\<open>node["children"]\<close>, which skips the \<^verbatim>\<open>None\<close> entries and converts the others
  from left to right. \<open>convert_snapshot\<close> adds the \<^verbatim>\<open>None\<close> case of the entry
  point. The tab is mutated by the calls, so it is passed along and returned.
\<close>

fun convert_node :: "raw_node \<Rightarrow> TabState \<Rightarrow> acc_node \<times> TabState"
  and convert_children :: "raw_node option list \<Rightarrow> TabState \<Rightarrow> acc_node list \<times> TabState"
where
  "convert_node (RawNode role name children) tab =
     (case assign_ref role name tab of
        (eref, tab1) \<Rightarrow>
          (case children of
             None \<Rightarrow>
               (AccNode (case role of None \<Rightarrow> ''generic'' | Some r \<Rightarrow> r) name eref None, tab1)
           | Some [] \<Rightarrow>
               (AccNode (case role of None \<Rightarrow> ''generic'' | Some r \<Rightarrow> r) name eref None, tab1)
           | Some (c # cs) \<Rightarrow>
               (case convert_children (c # cs) tab1 of
                  (outs, tab2) \<Rightarrow>
                    (AccNode (case role of None \<Rightarrow> ''generic'' | Some r \<Rightarrow> r) name eref
                       (Some outs), tab2))))"
| "convert_children [] tab = ([], tab)"
| "convert_children (None # cs) tab = convert_children cs tab"
| "convert_children (Some child # cs) tab =
     (case convert_node child tab of
        (out, tab1) \<Rightarrow>
          (case convert_children cs tab1 of
             (outs, tab2) \<Rightarrow> (out # outs, tab2)))"

definition convert_snapshot :: "raw_node option \<Rightarrow> TabState \<Rightarrow> acc_node option \<times> TabState" where
  "convert_snapshot node tab =
     (case node of
        None \<Rightarrow> (None, tab)
      | Some n \<Rightarrow> (case convert_node n tab of (out, tab') \<Rightarrow> (Some out, tab')))"

section \<open>The browser manager\<close>

text \<open>
  \<^verbatim>\<open>class CamofoxBrowserManager\<close>. The browser and the pages live outside the
  program: every awaited call on them is recorded as a \<open>call\<close>, in the order in which
  the method makes it, and its outcome is an argument of the model, \<open>Inl msg\<close> when
  the call raises an exception whose \<^verbatim>\<open>str\<close> is \<open>msg\<close> and \<open>Inr v\<close> when it
  returns \<open>v\<close>. A method returns its result (\<open>Inl\<close> the exception it raises), the
  manager after the call, and the calls it made. The methods are taken one at a time:
  the \<^verbatim>\<open>asyncio.Lock\<close> has no counterpart and \<^verbatim>\<open>print\<close> is left out.
\<close>

type_synonym browser = nat

datatype ctx = AsyncCamoufox (headless: bool) (humanize: bool)

datatype call =
    Launch ctx
  | New_page browser
  | Page_goto page string nat
  | Page_close page
  | Page_click page string nat
  | Page_fill page string string nat
  | Page_screenshot page
  | Page_snapshot page
  | Ctx_exit ctx

text \<open>
  The exceptions: \<^verbatim>\<open>HTTPException(status_code, detail)\<close> of FastAPI, and any
  other exception, known by its \<^verbatim>\<open>str\<close>. \<^verbatim>\<open>str\<close> of an \<^verbatim>\<open>HTTPException\<close> is
  \<^verbatim>\<open>f"{status_code}: {detail}"\<close>.
\<close>

datatype error = HTTPException (status_code: nat) (detail: string) | Exception string

fun str_error :: "error \<Rightarrow> string" where
  "str_error (HTTPException c d) = str_nat c @ '': '' @ d"
| "str_error (Exception msg) = msg"

record CamofoxBrowserManager =
  browser :: "browser option"
  camoufox_ctx :: "ctx option"
  tabs :: "(string, TabState) dict"
  session_tabs :: "(string, string) dict"

text \<open>\<^verbatim>\<open>__init__\<close>.\<close>

definition new_manager :: CamofoxBrowserManager where
  "new_manager = \<lparr>browser = None, camoufox_ctx = None, tabs = [], session_tabs = []\<rparr>"

text \<open>
  \<^verbatim>\<open>_ensure_browser\<close>: the context is stored before it is entered, so a launch that
  raises leaves the context set and the browser \<^verbatim>\<open>None\<close>.
\<close>

definition ensure_browser ::
  "CamofoxBrowserManager \<Rightarrow> string + browser \<Rightarrow> (error + unit) \<times> CamofoxBrowserManager \<times> call list"
where
  "ensure_browser m launch_result =
     (case browser m of
        None \<Rightarrow>
          (let c = AsyncCamoufox False True;
               m1 = m\<lparr>camoufox_ctx := Some c\<rparr>
           in case launch_result of
                Inl msg \<Rightarrow> (Inl (Exception msg), m1, [Launch c])
              | Inr b \<Rightarrow> (Inr (), m1\<lparr>browser := Some b\<rparr>, [Launch c]))
      | Some b \<Rightarrow> (Inr (), m, []))"

text \<open>
  \<^verbatim>\<open>create_tab\<close>. The outcomes of the calls it awaits, and the identifier that
  \<^verbatim>\<open>uuid.uuid4()\<close> draws, are the fields of \<open>create_tab_env\<close>. When \<^verbatim>\<open>page.goto\<close>
  raises, the page is closed and the \<^verbatim>\<open>HTTPException\<close> is raised; when
  \<^verbatim>\<open>page.close()\<close> raises there, its exception leaves the handler instead.
\<close>

record create_tab_env =
  launch_result :: "string + browser"
  uuid4 :: string
  new_page_result :: "string + page"
  goto_result :: "string + unit"
  close_result :: "string + unit"

definition create_tab ::
  "CamofoxBrowserManager \<Rightarrow> string \<Rightarrow> string \<Rightarrow> string \<Rightarrow> create_tab_env \<Rightarrow>
     (error + TabState) \<times> CamofoxBrowserManager \<times> call list"
where
  "create_tab m user_id session_key url' env =
     (case ensure_browser m (launch_result env) of
        (Inl e, m1, cs) \<Rightarrow> (Inl e, m1, cs)
      | (Inr _, m1, cs) \<Rightarrow>
          (let tab_id = uuid4 env in
           case browser m1 of
             None \<Rightarrow> (Inl (Exception ''AttributeError''), m1, cs)
           | Some b \<Rightarrow>
               (case new_page_result env of
                  Inl msg \<Rightarrow> (Inl (Exception msg), m1, cs @ [New_page b])
                | Inr pg \<Rightarrow>
                    (case goto_result env of
                       Inl msg \<Rightarrow>
                         (case close_result env of
                            Inl msg' \<Rightarrow>
                              (Inl (Exception msg'), m1,
                               cs @ [New_page b, Page_goto pg url' 30000, Page_close pg])
                          | Inr _ \<Rightarrow>
                              (Inl (HTTPException 500 (''Navigation failed: '' @ msg)), m1,
                               cs @ [New_page b, Page_goto pg url' 30000, Page_close pg]))
                     | Inr _ \<Rightarrow>
                         (let tab = new_TabState tab_id pg url'
                          in (Inr tab,
                              m1\<lparr>tabs := dict_set tab_id tab (tabs m1),
                                 session_tabs := dict_set session_key tab_id (session_tabs m1)\<rparr>,
                              cs @ [New_page b, Page_goto pg url' 30000]))))))"

text \<open>\<^verbatim>\<open>_get_tab\<close>: a \<^verbatim>\<open>TabState\<close> object is truthy, so only a missing key fails.\<close>

definition get_tab :: "CamofoxBrowserManager \<Rightarrow> string \<Rightarrow> string \<Rightarrow> error + TabState" where
  "get_tab m tab_id user_id =
     (case dict_get (tabs m) tab_id of
        None \<Rightarrow>
          Inl (HTTPException 404
                 (''Tab not found: '' @ tab_id @ ''. Available tabs: '' @
                  py_repr_list (dict_keys (tabs m))))
      | Some tab \<Rightarrow> Inr tab)"

text \<open>\<^verbatim>\<open>get_active_tab_for_session\<close>.\<close>

definition get_active_tab_for_session :: "CamofoxBrowserManager \<Rightarrow> string \<Rightarrow> string option" where
  "get_active_tab_for_session m session_key = dict_get (session_tabs m) session_key"

text \<open>
  A method mutates the \<^verbatim>\<open>TabState\<close> object it got from \<^verbatim>\<open>self.tabs\<close>; the object is
  stored under \<open>tab_id\<close>, so the mutation is written back at that key.
\<close>

definition store_tab :: "CamofoxBrowserManager \<Rightarrow> string \<Rightarrow> TabState \<Rightarrow> CamofoxBrowserManager" where
  "store_tab m tab_id tab = m\<lparr>tabs := dict_set tab_id tab (tabs m)\<rparr>"

text \<open>
  \<^verbatim>\<open>get_accessibility_tree\<close>. The \<^verbatim>\<open>HTTPException\<close> raised for a \<^verbatim>\<open>None\<close> snapshot
  is raised inside the \<^verbatim>\<open>try\<close> and caught by its \<^verbatim>\<open>except Exception\<close>.
\<close>

definition get_accessibility_tree ::
  "CamofoxBrowserManager \<Rightarrow> string \<Rightarrow> string \<Rightarrow> string + raw_node option \<Rightarrow>
     (error + acc_node) \<times> CamofoxBrowserManager \<times> call list"
where
  "get_accessibility_tree m tab_id user_id snapshot_result =
     (case get_tab m tab_id user_id of
        Inl e \<Rightarrow> (Inl e, m, [])
      | Inr tab \<Rightarrow>
          (case snapshot_result of
             Inl msg \<Rightarrow>
               (Inl (HTTPException 500 (''Failed to get accessibility tree: '' @ msg)), m,
                [Page_snapshot (page tab)])
           | Inr None \<Rightarrow>
               (Inl (HTTPException 500
                       (''Failed to get accessibility tree: '' @
                        str_error (HTTPException 500 ''Failed to get accessibility snapshot''))),
                m, [Page_snapshot (page tab)])
           | Inr (Some snapshot) \<Rightarrow>
               (case convert_node snapshot tab of
                  (tree, tab') \<Rightarrow>
                    (Inr tree, store_tab m tab_id tab', [Page_snapshot (page tab)]))))"

text \<open>
  \<^verbatim>\<open>click\<close> and \<^verbatim>\<open>type_text\<close>: \<^verbatim>\<open>if not selector\<close> holds for a missing key and for
  an empty selector.
\<close>

definition click ::
  "CamofoxBrowserManager \<Rightarrow> string \<Rightarrow> string \<Rightarrow> string \<Rightarrow> string + unit \<Rightarrow>
     (error + unit) \<times> CamofoxBrowserManager \<times> call list"
where
  "click m tab_id user_id element_ref click_result =
     (case get_tab m tab_id user_id of
        Inl e \<Rightarrow> (Inl e, m, [])
      | Inr tab \<Rightarrow>
          (case dict_get (element_map tab) element_ref of
             None \<Rightarrow>
               (Inl (HTTPException 400
                       (''Unknown element ref: '' @ element_ref @ ''. Available refs: '' @
                        py_repr_list (dict_keys (element_map tab)))),
                m, [])
           | Some selector \<Rightarrow>
               if selector = [] then
                 (Inl (HTTPException 400
                         (''Unknown element ref: '' @ element_ref @ ''. Available refs: '' @
                          py_repr_list (dict_keys (element_map tab)))),
                  m, [])
               else
                 (case click_result of
                    Inl msg \<Rightarrow>
                      (Inl (HTTPException 500 (''Click failed: '' @ msg)), m,
                       [Page_click (page tab) selector 5000])
                  | Inr _ \<Rightarrow> (Inr (), m, [Page_click (page tab) selector 5000]))))"

definition type_text ::
  "CamofoxBrowserManager \<Rightarrow> string \<Rightarrow> string \<Rightarrow> string \<Rightarrow> string \<Rightarrow> string + unit \<Rightarrow>
     (error + unit) \<times> CamofoxBrowserManager \<times> call list"
where
  "type_text m tab_id user_id element_ref text' fill_result =
     (case get_tab m tab_id user_id of
        Inl e \<Rightarrow> (Inl e, m, [])
      | Inr tab \<Rightarrow>
          (case dict_get (element_map tab) element_ref of
             None \<Rightarrow> (Inl (HTTPException 400 (''Unknown element ref: '' @ element_ref)), m, [])
           | Some selector \<Rightarrow>
               if selector = [] then
                 (Inl (HTTPException 400 (''Unknown element ref: '' @ element_ref)), m, [])
               else
                 (case fill_result of
                    Inl msg \<Rightarrow>
                      (Inl (HTTPException 500 (''Type failed: '' @ msg)), m,
                       [Page_fill (page tab) selector text' 5000])
                  | Inr _ \<Rightarrow> (Inr (), m, [Page_fill (page tab) selector text' 5000]))))"

text \<open>\<^verbatim>\<open>navigate\<close>: the tab is changed only after \<^verbatim>\<open>page.goto\<close> has returned.\<close>

definition navigate ::
  "CamofoxBrowserManager \<Rightarrow> string \<Rightarrow> string \<Rightarrow> string \<Rightarrow> string + unit \<Rightarrow>
     (error + unit) \<times> CamofoxBrowserManager \<times> call list"
where
  "navigate m tab_id user_id url' goto_res =
     (case get_tab m tab_id user_id of
        Inl e \<Rightarrow> (Inl e, m, [])
      | Inr tab \<Rightarrow>
          (case goto_res of
             Inl msg \<Rightarrow>
               (Inl (HTTPException 500 (''Navigation failed: '' @ msg)), m,
                [Page_goto (page tab) url' 30000])
           | Inr _ \<Rightarrow>
               (Inr (),
                store_tab m tab_id (tab\<lparr>url := url', element_map := [], ref_counter := 0\<rparr>),
                [Page_goto (page tab) url' 30000])))"

text \<open>
  \<^verbatim>\<open>screenshot\<close>: \<open>Base64 bytes\<close> stands for
  \<^verbatim>\<open>base64.b64encode(bytes).decode("utf-8")\<close>.
\<close>

datatype encoded = Base64 string

definition screenshot ::
  "CamofoxBrowserManager \<Rightarrow> string \<Rightarrow> string \<Rightarrow> string + string \<Rightarrow>
     (error + encoded) \<times> CamofoxBrowserManager \<times> call list"
where
  "screenshot m tab_id user_id screenshot_result =
     (case get_tab m tab_id user_id of
        Inl e \<Rightarrow> (Inl e, m, [])
      | Inr tab \<Rightarrow>
          (case screenshot_result of
             Inl msg \<Rightarrow>
               (Inl (HTTPException 500 (''Screenshot failed: '' @ msg)), m,
                [Page_screenshot (page tab)])
           | Inr screenshot_bytes \<Rightarrow>
               (Inr (Base64 screenshot_bytes), m, [Page_screenshot (page tab)])))"

text \<open>
  \<^verbatim>\<open>cleanup\<close>. Every tracked page is closed in the order of \<^verbatim>\<open>self.tabs\<close>; an
  exception of \<^verbatim>\<open>page.close()\<close> or of \<^verbatim>\<open>__aexit__\<close> is caught by a bare
  \<^verbatim>\<open>except: pass\<close>. Then \<^verbatim>\<open>self.tabs\<close> is cleared and, when a context is set, the
  context and the browser are set to \<^verbatim>\<open>None\<close>. No other field is assigned.
\<close>

fun close_all :: "(string \<times> TabState) list \<Rightarrow> (page \<Rightarrow> string + unit) \<Rightarrow> call list" where
  "close_all [] close_res = []"
| "close_all ((tab_id, tab) # rest) close_res =
     (case close_res (page tab) of
        Inl msg \<Rightarrow> Page_close (page tab) # close_all rest close_res
      | Inr _ \<Rightarrow> Page_close (page tab) # close_all rest close_res)"

definition cleanup ::
  "CamofoxBrowserManager \<Rightarrow> (page \<Rightarrow> string + unit) \<Rightarrow> string + unit \<Rightarrow>
     (error + unit) \<times> CamofoxBrowserManager \<times> call list"
where
  "cleanup m close_res exit_result =
     (let cs = close_all (tabs m) close_res;
          m1 = m\<lparr>tabs := []\<rparr>
      in case camoufox_ctx m1 of
           None \<Rightarrow> (Inr (), m1, cs)
         | Some c \<Rightarrow>
             (case exit_result of
                Inl msg \<Rightarrow> (Inr (), m1\<lparr>camoufox_ctx := None, browser := None\<rparr>, cs @ [Ctx_exit c])
              | Inr _ \<Rightarrow> (Inr (), m1\<lparr>camoufox_ctx := None, browser := None\<rparr>, cs @ [Ctx_exit c])))"

subsection \<open>Sequences of requests\<close>

text \<open>
  A request is a call of one of the public methods together with the outcomes of the
  calls it awaits; \<open>step\<close> is the manager after the request, whether it succeeded or
  raised, and \<open>run\<close> serves a list of requests from left to right.
\<close>

datatype request =
    Create_tab string string string create_tab_env
  | Get_accessibility_tree string string "string + raw_node option"
  | Click string string string "string + unit"
  | Type_text string string string string "string + unit"
  | Navigate string string string "string + unit"
  | Screenshot string string "string + string"
  | Cleanup "page \<Rightarrow> string + unit" "string + unit"

fun step :: "CamofoxBrowserManager \<Rightarrow> request \<Rightarrow> CamofoxBrowserManager" where
  "step m (Create_tab user_id session_key url' env) =
     fst (snd (create_tab m user_id session_key url' env))"
| "step m (Get_accessibility_tree tab_id user_id r) =
     fst (snd (get_accessibility_tree m tab_id user_id r))"
| "step m (Click tab_id user_id element_ref r) =
     fst (snd (click m tab_id user_id element_ref r))"
| "step m (Type_text tab_id user_id element_ref text' r) =
     fst (snd (type_text m tab_id user_id element_ref text' r))"
| "step m (Navigate tab_id user_id url' r) =
     fst (snd (navigate m tab_id user_id url' r))"
| "step m (Screenshot tab_id user_id r) =
     fst (snd (screenshot m tab_id user_id r))"
| "step m (Cleanup close_res exit_result) =
     fst (snd (cleanup m close_res exit_result))"

definition run :: "CamofoxBrowserManager \<Rightarrow> request list \<Rightarrow> CamofoxBrowserManager" where
  "run m reqs = foldl step m reqs"

section \<open>Notions of the specification\<close>

text \<open>The interactive role set as the glossary of the specification lists it.\<close>

definition glossary_roles :: "string list" where
  "glossary_roles =
     [''button'', ''link'', ''textbox'', ''checkbox'', ''radio'', ''combobox'', ''menuitem'',
      ''tab'', ''switch'', ''searchbox'', ''navigation'', ''menubar'', ''menu'',
      ''menuitemcheckbox'', ''menuitemradio'', ''option'', ''progressbar'', ''scrollbar'',
      ''slider'', ''spinbutton'', ''tablist'', ''tabpanel'', ''heading'', ''article'',
      ''section'', ''banner'', ''complementary'', ''contentinfo'', ''form'', ''main'',
      ''region'', ''search'', ''paragraph'', ''listitem'', ''img'', ''figure'']"

text \<open>
  Comparison without regard to case, stated on its own and not through the lowering
  of the code: two characters are the same letter when they are equal or when one is
  an ASCII capital and the other its small letter, and two strings are equal up to
  case when they have the same length and the same letters position by position.
\<close>

definition is_capital :: "char \<Rightarrow> bool" where
  "is_capital c = (65 \<le> (of_char c :: nat) \<and> (of_char c :: nat) \<le> 90)"

definition same_letter :: "char \<Rightarrow> char \<Rightarrow> bool" where
  "same_letter c d =
     (c = d \<or>
      (is_capital c \<and> (of_char d :: nat) = of_char c + 32) \<or>
      (is_capital d \<and> (of_char c :: nat) = of_char d + 32))"

definition equal_ignoring_case :: "string \<Rightarrow> string \<Rightarrow> bool" where
  "equal_ignoring_case r g = list_all2 same_letter r g"

text \<open>
  An interactive named node, in the words of the specification: its name is not empty
  and its role, compared without regard to case, is a member of the glossary's list.
\<close>

definition interactive_named :: "raw_node \<Rightarrow> bool" where
  "interactive_named n =
     (case raw_name n of
        None \<Rightarrow> False
      | Some nm \<Rightarrow>
          nm \<noteq> [] \<and>
          (case raw_role n of
             None \<Rightarrow> False
           | Some r \<Rightarrow> list_ex (equal_ignoring_case r) glossary_roles))"

text \<open>
  The nodes of a snapshot and of a projected tree in depth-first pre-order, children
  from left to right; the \<^verbatim>\<open>None\<close> entries of a children list are no nodes.
\<close>

fun preorder :: "raw_node \<Rightarrow> raw_node list"
  and preorder_children :: "raw_node option list \<Rightarrow> raw_node list"
where
  "preorder (RawNode role name children) =
     RawNode role name children #
       (case children of None \<Rightarrow> [] | Some cs \<Rightarrow> preorder_children cs)"
| "preorder_children [] = []"
| "preorder_children (None # cs) = preorder_children cs"
| "preorder_children (Some child # cs) = preorder child @ preorder_children cs"

fun out_preorder :: "acc_node \<Rightarrow> acc_node list" where
  "out_preorder (AccNode role name eref children) =
     AccNode role name eref children #
       (case children of None \<Rightarrow> [] | Some cs \<Rightarrow> concat (map out_preorder cs))"

text \<open>The references that a projected tree carries, in pre-order.\<close>

definition refs_of :: "acc_node \<Rightarrow> string list" where
  "refs_of out = List.map_filter out_elementRef (out_preorder out)"

text \<open>
  The reference \<^verbatim>\<open>e<k>\<close>, and the numbering of a pre-order list of nodes that starts
  after the counter value \<open>c\<close>: each interactive named node takes the next number, the
  other nodes take no reference.
\<close>

definition eref_of :: "nat \<Rightarrow> string" where
  "eref_of k = ''e'' @ str_nat k"

fun label :: "nat \<Rightarrow> raw_node list \<Rightarrow> string option list" where
  "label c [] = []"
| "label c (n # ns) =
     (if interactive_named n then Some (eref_of (c + 1)) # label (c + 1) ns
      else None # label c ns)"

text \<open>An output node copies the role (default \<^verbatim>\<open>"generic"\<close>) and the name of a node.\<close>

definition copies :: "raw_node \<Rightarrow> acc_node \<Rightarrow> bool" where
  "copies n out =
     (out_role out = (case raw_role n of None \<Rightarrow> ''generic'' | Some r \<Rightarrow> r) \<and>
      out_name out = raw_name n)"

text \<open>
  The invariant of the session map: every session key that is present resolves to a
  tab identifier that is a key of the tab map.
\<close>

definition sessions_resolve :: "CamofoxBrowserManager \<Rightarrow> bool" where
  "sessions_resolve m =
     list_all
       (\<lambda>k. case dict_get (session_tabs m) k of
              None \<Rightarrow> True
            | Some t \<Rightarrow> dict_get (tabs m) t \<noteq> None)
       (dict_keys (session_tabs m))"

text \<open>The registry is empty: no browser, no context, no tab and no session entry.\<close>

definition registry_empty :: "CamofoxBrowserManager \<Rightarrow> bool" where
  "registry_empty m =
     (browser m = None \<and> camoufox_ctx m = None \<and> tabs m = [] \<and> session_tabs m = [])"

subsection \<open>Example inputs\<close>

definition ok_button :: raw_node where
  "ok_button = RawNode (Some ''button'') (Some ''OK'') None"

definition env_ok :: "string \<Rightarrow> page \<Rightarrow> create_tab_env" where
  "env_ok i p =
     \<lparr>launch_result = Inr 1, uuid4 = i, new_page_result = Inr p,
      goto_result = Inr (), close_result = Inr ()\<rparr>"

definition env_goto_fails :: "string \<Rightarrow> page \<Rightarrow> create_tab_env" where
  "env_goto_fails i p =
     \<lparr>launch_result = Inr 1, uuid4 = i, new_page_result = Inr p,
      goto_result = Inl ''Timeout 30000ms exceeded'', close_result = Inr ()\<rparr>"

text \<open>A manager with one tab \<^verbatim>\<open>t1\<close> of session \<^verbatim>\<open>s\<close>, and the same after one snapshot.\<close>

definition one_tab :: CamofoxBrowserManager where
  "one_tab = run new_manager [Create_tab ''u'' ''s'' ''https://example.com'' (env_ok ''t1'' 7)]"

definition one_tab_snapshot :: CamofoxBrowserManager where
  "one_tab_snapshot = step one_tab (Get_accessibility_tree ''t1'' ''u'' (Inr (Some ok_button)))"

definition two_tabs :: CamofoxBrowserManager where
  "two_tabs = step one_tab (Create_tab ''v'' ''s'' ''https://example.org'' (env_ok ''t2'' 8))"

text \<open>The requests other than \<^verbatim>\<open>cleanup\<close>.\<close>

fun is_cleanup :: "request \<Rightarrow> bool" where
  "is_cleanup (Cleanup close_res exit_result) = True"
| "is_cleanup req = False"

section \<open>Properties of the projector\<close>

lemmas op_defs = create_tab_def ensure_browser_def get_tab_def get_accessibility_tree_def
  click_def type_text_def navigate_def screenshot_def cleanup_def store_tab_def
  get_active_tab_for_session_def

lemmas dict_defs = dict_get_def dict_set_def dict_keys_def

lemma roles_eq: "interactive_roles = set glossary_roles"
  unfolding interactive_roles_def glossary_roles_def by simp

text \<open>
  The lowering of the code decides the comparison without regard to case: a capital is
  moved to its small letter, so a lowered role equals a word without capitals exactly
  when the role equals the word up to case. The words of the glossary have no capitals.
\<close>

lemma lower_char_capital:
  "is_capital c \<Longrightarrow> (of_char (lower_char c) :: nat) = of_char c + 32"
  by (simp add: lower_char_def is_capital_def Let_def)

lemma lower_char_other: "\<not> is_capital c \<Longrightarrow> lower_char c = c"
  by (auto simp: lower_char_def is_capital_def Let_def)

lemma lower_char_same_letter:
  assumes "\<not> is_capital d"
  shows "(lower_char c = d) = same_letter c d"
proof (cases "is_capital c")
  case True
  have "(lower_char c = d) = ((of_char (lower_char c) :: nat) = of_char d)"
    by simp
  also have "\<dots> = ((of_char d :: nat) = of_char c + 32)"
    using lower_char_capital [OF True] by auto
  also have "\<dots> = same_letter c d"
    using True assms by (auto simp: same_letter_def)
  finally show ?thesis .
next
  case False
  then show ?thesis using assms by (auto simp: same_letter_def lower_char_other)
qed

lemma lower_equal_ignoring_case:
  "list_all (\<lambda>d. \<not> is_capital d) g \<Longrightarrow> (lower r = g) = equal_ignoring_case r g"
proof (induction r arbitrary: g)
  case Nil
  then show ?case by (auto simp: lower_def equal_ignoring_case_def)
next
  case (Cons c r)
  show ?case
  proof (cases g)
    case Nil
    then show ?thesis by (simp add: lower_def equal_ignoring_case_def)
  next
    case (Cons d g')
    then show ?thesis
      using Cons.IH [of g'] Cons.prems lower_char_same_letter [of d c]
      by (auto simp: lower_def equal_ignoring_case_def)
  qed
qed

lemma glossary_small_letters:
  "list_all (list_all (\<lambda>d. \<not> is_capital d)) glossary_roles"
  by (simp add: glossary_roles_def is_capital_def)

lemma lower_in_glossary:
  "(lower r \<in> set glossary_roles) = list_ex (equal_ignoring_case r) glossary_roles"
proof -
  have "\<And>g. g \<in> set glossary_roles \<Longrightarrow> (lower r = g) = equal_ignoring_case r g"
    using glossary_small_letters lower_equal_ignoring_case
    by (simp add: list_all_iff)
  then show ?thesis
    by (auto simp: list_ex_iff)
qed

lemma interactive_named_RawNode:
  "interactive_named (RawNode role name children) =
     (\<exists>nm. name = Some nm \<and> nm \<noteq> [] \<and> is_interactive role)"
  by (auto simp: interactive_named_def is_interactive_def roles_eq lower_in_glossary
      split: option.splits)

lemma assign_ref_fst:
  "fst (assign_ref role name tab) =
     (if interactive_named (RawNode role name children)
      then Some (eref_of (ref_counter tab + 1)) else None)"
  by (auto simp: assign_ref_def interactive_named_RawNode eref_of_def Let_def
      split: option.splits)

lemma assign_ref_counter:
  "ref_counter (snd (assign_ref role name tab)) =
     (if interactive_named (RawNode role name children)
      then ref_counter tab + 1 else ref_counter tab)"
  by (auto simp: assign_ref_def interactive_named_RawNode Let_def split: option.splits)

lemma dict_keys_set: "set (dict_keys (dict_set k v d)) = insert k (set (dict_keys d))"
  using AList.dom_update [of k v d] by (simp add: dict_defs)

lemma assign_ref_keys:
  "set (dict_keys (element_map (snd (assign_ref role name tab)))) =
     set (dict_keys (element_map tab)) \<union> set_option (fst (assign_ref role name tab))"
  by (auto simp: assign_ref_def Let_def dict_keys_set split: option.splits)

lemma label_append:
  "label c (xs @ ys) = label c xs @ label (c + length (filter interactive_named xs)) ys"
  by (induction xs arbitrary: c) auto

lemma label_refs:
  "List.map_filter (\<lambda>r. r) (label c ns) =
     map eref_of [c + 1 ..< c + 1 + length (filter interactive_named ns)]"
proof (induction ns arbitrary: c)
  case Nil
  then show ?case by simp
next
  case (Cons n ns)
  show ?case
  proof (cases "interactive_named n")
    case True
    have "[c + 1 ..< c + 1 + Suc (length (filter interactive_named ns))] =
          (c + 1) # [c + 1 + 1 ..< c + 1 + 1 + length (filter interactive_named ns)]"
      by (subst upt_rec) simp
    with True Cons [of "c + 1"] show ?thesis by simp
  next
    case False
    with Cons [of c] show ?thesis by simp
  qed
qed

lemma label_iff:
  "list_all2 (\<lambda>n r. (r \<noteq> None) = interactive_named n) ns (label c ns)"
  by (induction ns arbitrary: c) auto

lemma convert_label:
  "map out_elementRef (out_preorder (fst (convert_node n tab))) =
     label (ref_counter tab) (preorder n) \<and>
   ref_counter (snd (convert_node n tab)) =
     ref_counter tab + length (filter interactive_named (preorder n))"
  "map out_elementRef (concat (map out_preorder (fst (convert_children cs tab)))) =
     label (ref_counter tab) (preorder_children cs) \<and>
   ref_counter (snd (convert_children cs tab)) =
     ref_counter tab + length (filter interactive_named (preorder_children cs))"
proof (induction n tab and cs tab rule: convert_node_convert_children.induct)
  case (1 role name children tab)
  obtain eref tab1 where a: "assign_ref role name tab = (eref, tab1)"
    by (cases "assign_ref role name tab")
  have e: "eref = (if interactive_named (RawNode role name children)
                   then Some (eref_of (ref_counter tab + 1)) else None)"
    using assign_ref_fst [of role name tab children] a by simp
  have c: "ref_counter tab1 = (if interactive_named (RawNode role name children)
                               then ref_counter tab + 1 else ref_counter tab)"
    using assign_ref_counter [of role name tab children] a by simp
  show ?case
  proof (cases children)
    case None
    then show ?thesis using a e c by simp
  next
    case (Some l)
    show ?thesis
    proof (cases l)
      case Nil
      then show ?thesis using a e c Some by simp
    next
      case (Cons x xs)
      note ih = "1.IH" [OF a [symmetric] Some Cons]
      obtain outs tab2 where b: "convert_children (x # xs) tab1 = (outs, tab2)"
        by (cases "convert_children (x # xs) tab1")
      show ?thesis using a b e c Some Cons ih by simp
    qed
  qed
next
  case (2 tab)
  then show ?case by simp
next
  case (3 cs tab)
  then show ?case by simp
next
  case (4 child cs tab)
  obtain out tab1 where a: "convert_node child tab = (out, tab1)"
    by (cases "convert_node child tab")
  obtain outs tab2 where b: "convert_children cs tab1 = (outs, tab2)"
    by (cases "convert_children cs tab1")
  show ?case using a b "4.IH"(1) "4.IH"(2) [OF a [symmetric]]
    by (simp add: label_append)
qed

lemma convert_copies:
  "list_all2 copies (preorder n) (out_preorder (fst (convert_node n tab)))"
  "list_all2 copies (preorder_children cs)
     (concat (map out_preorder (fst (convert_children cs tab))))"
proof (induction n tab and cs tab rule: convert_node_convert_children.induct)
  case (1 role name children tab)
  obtain eref tab1 where a: "assign_ref role name tab = (eref, tab1)"
    by (cases "assign_ref role name tab")
  show ?case
  proof (cases children)
    case None
    then show ?thesis using a by (simp add: copies_def)
  next
    case (Some l)
    show ?thesis
    proof (cases l)
      case Nil
      then show ?thesis using a Some by (simp add: copies_def)
    next
      case (Cons x xs)
      note ih = "1.IH" [OF a [symmetric] Some Cons]
      obtain outs tab2 where b: "convert_children (x # xs) tab1 = (outs, tab2)"
        by (cases "convert_children (x # xs) tab1")
      show ?thesis using a b Some Cons ih by (simp add: copies_def)
    qed
  qed
next
  case (2 tab)
  then show ?case by simp
next
  case (3 cs tab)
  then show ?case by simp
next
  case (4 child cs tab)
  obtain out tab1 where a: "convert_node child tab = (out, tab1)"
    by (cases "convert_node child tab")
  obtain outs tab2 where b: "convert_children cs tab1 = (outs, tab2)"
    by (cases "convert_children cs tab1")
  show ?case using a b "4.IH"(1) "4.IH"(2) [OF a [symmetric]]
    by (simp add: list_all2_appendI)
qed

lemma map_filter_append:
  "List.map_filter f (xs @ ys) = List.map_filter f xs @ List.map_filter f ys"
  by (simp add: List.map_filter_def)

lemma map_filter_map: "List.map_filter f (map g xs) = List.map_filter (\<lambda>x. f (g x)) xs"
  by (induction xs) (auto split: option.splits)

lemma convert_keys:
  "set (dict_keys (element_map (snd (convert_node n tab)))) =
     set (dict_keys (element_map tab)) \<union> set (refs_of (fst (convert_node n tab)))"
  "set (dict_keys (element_map (snd (convert_children cs tab)))) =
     set (dict_keys (element_map tab)) \<union>
     set (List.map_filter out_elementRef
            (concat (map out_preorder (fst (convert_children cs tab)))))"
proof (induction n tab and cs tab rule: convert_node_convert_children.induct)
  case (1 role name children tab)
  obtain eref tab1 where a: "assign_ref role name tab = (eref, tab1)"
    by (cases "assign_ref role name tab")
  have k: "set (dict_keys (element_map tab1)) =
           set (dict_keys (element_map tab)) \<union> set_option eref"
    using assign_ref_keys [of role name tab] a by simp
  show ?case
  proof (cases children)
    case None
    then show ?thesis using a k by (cases eref) (simp_all add: refs_of_def)
  next
    case (Some l)
    show ?thesis
    proof (cases l)
      case Nil
      then show ?thesis using a k Some by (cases eref) (simp_all add: refs_of_def)
    next
      case (Cons x xs)
      note ih = "1.IH" [OF a [symmetric] Some Cons]
      obtain outs tab2 where b: "convert_children (x # xs) tab1 = (outs, tab2)"
        by (cases "convert_children (x # xs) tab1")
      show ?thesis using a b k Some Cons ih
        by (cases eref) (auto simp: refs_of_def)
    qed
  qed
next
  case (2 tab)
  then show ?case by simp
next
  case (3 cs tab)
  then show ?case by simp
next
  case (4 child cs tab)
  obtain out tab1 where a: "convert_node child tab = (out, tab1)"
    by (cases "convert_node child tab")
  obtain outs tab2 where b: "convert_children cs tab1 = (outs, tab2)"
    by (cases "convert_children cs tab1")
  show ?case using a b "4.IH"(1) "4.IH"(2) [OF a [symmetric]]
    by (auto simp: refs_of_def map_filter_append)
qed

lemma refs_of_label:
  "refs_of out = List.map_filter (\<lambda>r. r) (map out_elementRef (out_preorder out))"
  by (simp add: refs_of_def map_filter_map)

lemma convert_refs:
  "refs_of (fst (convert_node n tab)) =
     map eref_of [ref_counter tab + 1 ..<
                  ref_counter tab + 1 + length (filter interactive_named (preorder n))]"
  by (simp add: refs_of_label convert_label(1) label_refs)


lemma str_nat_small:
  "str_nat (Suc 0) = ''1''" "str_nat 1 = ''1''" "str_nat 2 = ''2''" "str_nat (Suc (Suc 0)) = ''2''"
  by code_simp+

lemma lower_button: "lower ''button'' = ''button''"
  by code_simp

lemma interactive_ok_button: "interactive_named ok_button"
  by (simp add: ok_button_def interactive_named_RawNode is_interactive_def
      interactive_roles_def lower_button)

text \<open>
  Roles written with capitals: \<^verbatim>\<open>BuTTon\<close> and \<^verbatim>\<open>LINK\<close> are lowered to words of the
  set and are interactive, \<^verbatim>\<open>Buttons\<close> is lowered to a word that is not in the set,
  and a named node with the role \<^verbatim>\<open>BuTTon\<close> is given the reference \<^verbatim>\<open>e1\<close> on a new
  tab while one with the role \<^verbatim>\<open>Buttons\<close> is given none.
\<close>

lemma lower_mixed_case:
  "lower ''BuTTon'' = ''button''" "lower ''LINK'' = ''link''"
  "lower ''Buttons'' = ''buttons''" "lower ''Tab-Panel_1'' = ''tab-panel_1''"
  by code_simp+

lemma is_interactive_examples:
  "is_interactive (Some ''BuTTon'')" "is_interactive (Some ''LINK'')"
  "\<not> is_interactive (Some ''Buttons'')" "\<not> is_interactive None"
  by (simp_all add: is_interactive_def interactive_roles_def lower_mixed_case)

lemma mixed_case_role_gets_ref:
  "convert_node (RawNode (Some ''BuTTon'') (Some ''OK'') None) (new_TabState ''t1'' 7 ''u'') =
     (AccNode ''BuTTon'' (Some ''OK'') (Some ''e1'') None,
      \<lparr>id' = ''t1'', page = 7, url = ''u'',
       element_map = [(''e1'', ''text=\"OK\"'')], ref_counter = 1\<rparr>)"
  "fst (convert_node (RawNode (Some ''Buttons'') (Some ''OK'') None)
          (new_TabState ''t1'' 7 ''u'')) =
     AccNode ''Buttons'' (Some ''OK'') None None"
  by (simp_all add: assign_ref_def is_interactive_examples new_TabState_def Let_def
      dict_set_def str_nat_small)

lemma one_tab_eq:
  "one_tab =
     \<lparr>browser = Some 1, camoufox_ctx = Some (AsyncCamoufox False True),
      tabs = [(''t1'', \<lparr>id' = ''t1'', page = 7, url = ''https://example.com'',
                         element_map = [], ref_counter = 0\<rparr>)],
      session_tabs = [(''s'', ''t1'')]\<rparr>"
  by (simp add: one_tab_def run_def op_defs new_manager_def env_ok_def dict_defs Let_def
      new_TabState_def)

lemma convert_ok_button:
  "convert_node ok_button tab =
     (AccNode ''button'' (Some ''OK'') (Some (''e'' @ str_nat (ref_counter tab + 1))) None,
      tab\<lparr>ref_counter := ref_counter tab + 1,
          element_map := dict_set (''e'' @ str_nat (ref_counter tab + 1)) ''text=\"OK\"''
                           (element_map tab)\<rparr>)"
  by (simp add: ok_button_def assign_ref_def is_interactive_def interactive_roles_def
      lower_button Let_def)

lemma one_tab_snapshot_eq:
  "one_tab_snapshot =
     \<lparr>browser = Some 1, camoufox_ctx = Some (AsyncCamoufox False True),
      tabs = [(''t1'', \<lparr>id' = ''t1'', page = 7, url = ''https://example.com'',
                         element_map = [(''e1'', ''text=\"OK\"'')], ref_counter = 1\<rparr>)],
      session_tabs = [(''s'', ''t1'')]\<rparr>"
  by (simp add: one_tab_snapshot_def one_tab_eq get_accessibility_tree_def get_tab_def
      store_tab_def dict_defs convert_ok_button str_nat_small)

lemma convert_children_copies:
  "list_all2 copies (List.map_filter (\<lambda>x. x) cs) (fst (convert_children cs tab))"
proof (induction cs arbitrary: tab)
  case Nil
  then show ?case by simp
next
  case (Cons c cs)
  show ?case
  proof (cases c)
    case None
    then show ?thesis using Cons by simp
  next
    case (Some child)
    obtain out tab1 where a: "convert_node child tab = (out, tab1)"
      by (cases "convert_node child tab")
    obtain outs tab2 where b: "convert_children cs tab1 = (outs, tab2)"
      by (cases "convert_children cs tab1")
    have "copies child out"
      using a by (cases child) (auto simp: copies_def split: prod.splits option.splits list.splits)
    then show ?thesis using Some a b Cons [of tab1] by simp
  qed
qed

text \<open>
  Claim C1. The interactive role set of the code is the list of the glossary, and for
  every node of a snapshot the projected node, which copies its role and name,
  carries an element reference if and only if the node's name is not empty and its
  role equals a word of that list up to case (\<open>interactive_named\<close>, which does not
  mention the lowering of the code). The nodes of the snapshot and of the projection
  are paired in pre-order.
\<close>

theorem element_ref_iff_interactive_named:
  "interactive_roles = set glossary_roles \<and>
   (\<exists>out tab'. convert_snapshot (Some node) tab = (Some out, tab') \<and>
      list_all2 (\<lambda>n out. copies n out \<and> (out_elementRef out \<noteq> None) = interactive_named n)
        (preorder node) (out_preorder out))"
proof -
  obtain out tab' where a: "convert_node node tab = (out, tab')"
    by (cases "convert_node node tab")
  have c: "list_all2 copies (preorder node) (out_preorder out)"
    using convert_copies(1) [of node tab] a by simp
  have "list_all2 (\<lambda>n r. (r \<noteq> None) = interactive_named n) (preorder node)
          (map out_elementRef (out_preorder out))"
    using convert_label(1) [of node tab] a label_iff [of "preorder node" "ref_counter tab"]
    by simp
  then have r: "list_all2 (\<lambda>n out. (out_elementRef out \<noteq> None) = interactive_named n)
                  (preorder node) (out_preorder out)"
    by (simp add: list_all2_map2)
  have "list_all2 (\<lambda>n out. copies n out \<and> (out_elementRef out \<noteq> None) = interactive_named n)
          (preorder node) (out_preorder out)"
    using c r by (simp add: list_all2_conv_all_nth)
  then show ?thesis using a by (simp add: convert_snapshot_def roles_eq)
qed

text \<open>
  Claim C2, amended. When a snapshot with \<open>N\<close> interactive named nodes is projected on
  a tab whose counter is \<open>c\<close>, the emitted references are exactly
  \<^verbatim>\<open>e(c+1)\<close>, ..., \<^verbatim>\<open>e(c+N)\<close>, given to the interactive named nodes in pre-order, the
  counter is \<open>c + N\<close> afterwards, and every emitted reference is a key of the tab's
  element map afterwards. They are \<^verbatim>\<open>e1\<close>, ..., \<^verbatim>\<open>eN\<close> when \<open>c = 0\<close>, on a new tab
  or after a navigation.
\<close>

theorem refs_continue_after_counter:
  "refs_of (fst (convert_node node tab)) =
     map eref_of [ref_counter tab + 1 ..<
                  ref_counter tab + 1 + length (filter interactive_named (preorder node))] \<and>
   map out_elementRef (out_preorder (fst (convert_node node tab))) =
     label (ref_counter tab) (preorder node) \<and>
   ref_counter (snd (convert_node node tab)) =
     ref_counter tab + length (filter interactive_named (preorder node)) \<and>
   set (refs_of (fst (convert_node node tab))) \<subseteq>
     set (dict_keys (element_map (snd (convert_node node tab))))"
  using convert_refs [of node tab] convert_label(1) [of node tab] convert_keys(1) [of node tab]
  by simp

text \<open>
  Claim C2 as stated fails on the second snapshot of a tab: a snapshot with one
  interactive named node, projected on the tab that has projected it once already,
  emits \<^verbatim>\<open>e2\<close> and not \<^verbatim>\<open>e1\<close>.
\<close>

theorem second_snapshot_starts_at_e2:
  "length (filter interactive_named (preorder ok_button)) = 1 \<and>
   refs_of (fst (convert_node ok_button
             (snd (convert_node ok_button (new_TabState ''t1'' 7 ''https://example.com''))))) =
     [''e2''] \<and>
   map eref_of [1 ..< 1 + length (filter interactive_named (preorder ok_button))] = [''e1''] \<and>
   fst (get_accessibility_tree one_tab_snapshot ''t1'' ''u'' (Inr (Some ok_button))) =
     Inr (AccNode ''button'' (Some ''OK'') (Some ''e2'') None)"
proof -
  have n: "length (filter interactive_named (preorder ok_button)) = 1"
    using interactive_ok_button by (simp add: ok_button_def)
  have r: "refs_of (fst (convert_node ok_button
             (snd (convert_node ok_button (new_TabState ''t1'' 7 ''https://example.com''))))) =
     [''e2'']"
    by (simp add: convert_ok_button refs_of_def new_TabState_def str_nat_small)
  have e: "map eref_of [1 ..< 1 + length (filter interactive_named (preorder ok_button))] = [''e1'']"
    using n by (simp add: eref_of_def str_nat_small)
  have g: "fst (get_accessibility_tree one_tab_snapshot ''t1'' ''u'' (Inr (Some ok_button))) =
     Inr (AccNode ''button'' (Some ''OK'') (Some ''e2'') None)"
    by (simp add: one_tab_snapshot_eq get_accessibility_tree_def get_tab_def dict_defs
        convert_ok_button str_nat_small)
  show ?thesis using n r e g by simp
qed

text \<open>
  Claim C8, amended. The children field of the projected node is absent when the node
  has no children key or an empty children list; otherwise it is attached, and it
  holds one projected node for each entry that is not \<^verbatim>\<open>None\<close>, in order, each
  copying the role and name of its entry.
\<close>

theorem children_attached_iff_input_list_nonempty:
  "(case raw_children n of
      None \<Rightarrow> out_children (fst (convert_node n tab)) = None
    | Some [] \<Rightarrow> out_children (fst (convert_node n tab)) = None
    | Some (c # cs) \<Rightarrow>
        (\<exists>outs. out_children (fst (convert_node n tab)) = Some outs \<and>
           list_all2 copies (List.map_filter (\<lambda>x. x) (c # cs)) outs))"
proof (cases n)
  case (RawNode role name children)
  obtain eref tab1 where a: "assign_ref role name tab = (eref, tab1)"
    by (cases "assign_ref role name tab")
  show ?thesis
  proof (cases children)
    case None
    then show ?thesis using RawNode a by simp
  next
    case (Some l)
    show ?thesis
    proof (cases l)
      case Nil
      then show ?thesis using RawNode a Some by simp
    next
      case (Cons x xs)
      obtain outs tab2 where b: "convert_children (x # xs) tab1 = (outs, tab2)"
        by (cases "convert_children (x # xs) tab1")
      have "list_all2 copies (List.map_filter (\<lambda>x. x) (x # xs)) outs"
        using convert_children_copies [of "x # xs" tab1] b by simp
      then show ?thesis using RawNode a b Some Cons by simp
    qed
  qed
qed

text \<open>
  Claim C8 as stated fails on a node whose children are all \<^verbatim>\<open>None\<close>: the children
  field is attached and holds the empty list.
\<close>

theorem null_children_give_empty_list:
  "out_children (fst (convert_node (RawNode (Some ''generic'') None (Some [None]))
                   (new_TabState ''t1'' 7 ''https://example.com''))) = Some []"
  by (simp add: assign_ref_def)

section \<open>Properties of the manager\<close>

lemma dict_get_set: "dict_get (dict_set k v d) k = Some v"
  by (simp add: dict_defs AList.update_conv')

lemma dict_get_set_other: "k' \<noteq> k \<Longrightarrow> dict_get (dict_set k v d) k' = dict_get d k'"
  by (simp add: dict_defs AList.update_conv')

text \<open>
  Claim C3. After a successful \<^verbatim>\<open>navigate\<close>, whatever the tab was before, the tab
  stored under the identifier has the requested URL, an empty element map and the
  counter 0.
\<close>

theorem navigate_resets_tab:
  "navigate m tab_id user_id url' r = (Inr (), m', cs) \<Longrightarrow>
     \<exists>tab. dict_get (tabs m') tab_id = Some tab \<and>
           url tab = url' \<and> element_map tab = [] \<and> ref_counter tab = 0"
  by (auto simp: navigate_def get_tab_def store_tab_def dict_get_set
      split: option.splits sum.splits)

theorem navigate_resets_tab_witness:
  "navigate one_tab_snapshot ''t1'' ''u'' ''https://example.org'' (Inr ()) =
     (Inr (),
      one_tab_snapshot\<lparr>tabs := [(''t1'', \<lparr>id' = ''t1'', page = 7, url = ''https://example.org'',
                                           element_map = [], ref_counter = 0\<rparr>)]\<rparr>,
      [Page_goto 7 ''https://example.org'' 30000]) \<and>
   (\<exists>tab. dict_get (tabs (one_tab_snapshot\<lparr>tabs := [(''t1'', \<lparr>id' = ''t1'', page = 7,
                 url = ''https://example.org'', element_map = [], ref_counter = 0\<rparr>)]\<rparr>)) ''t1'' =
             Some tab \<and>
          url tab = ''https://example.org'' \<and> element_map tab = [] \<and> ref_counter tab = 0)"
proof -
  have h: "navigate one_tab_snapshot ''t1'' ''u'' ''https://example.org'' (Inr ()) =
     (Inr (),
      one_tab_snapshot\<lparr>tabs := [(''t1'', \<lparr>id' = ''t1'', page = 7, url = ''https://example.org'',
                                           element_map = [], ref_counter = 0\<rparr>)]\<rparr>,
      [Page_goto 7 ''https://example.org'' 30000])"
    by (simp add: one_tab_snapshot_eq navigate_def get_tab_def store_tab_def dict_defs)
  show ?thesis using h navigate_resets_tab [OF h] by simp
qed

text \<open>
  For every tab and every reference that is not a key of its element map, \<^verbatim>\<open>click\<close>
  and \<^verbatim>\<open>type_text\<close> raise the 400 error, leave the manager as it was and make no
  call on the page.
\<close>

lemma click_unknown_ref:
  "get_tab m tab_id user_id = Inr tab \<Longrightarrow> dict_get (element_map tab) element_ref = None \<Longrightarrow>
   click m tab_id user_id element_ref r =
     (Inl (HTTPException 400
             (''Unknown element ref: '' @ element_ref @ ''. Available refs: '' @
              py_repr_list (dict_keys (element_map tab)))), m, [])"
  by (simp add: click_def)

lemma type_text_unknown_ref:
  "get_tab m tab_id user_id = Inr tab \<Longrightarrow> dict_get (element_map tab) element_ref = None \<Longrightarrow>
   type_text m tab_id user_id element_ref text' r =
     (Inl (HTTPException 400 (''Unknown element ref: '' @ element_ref)), m, [])"
  by (simp add: type_text_def)

text \<open>
  Claim C4, at a tab whose element map has the single key \<^verbatim>\<open>e1\<close> and for the unknown
  reference \<^verbatim>\<open>e2\<close>: \<^verbatim>\<open>click\<close> and \<^verbatim>\<open>type_text\<close> both raise the 400 error and
  make no call on the page, but only the detail of \<^verbatim>\<open>click\<close> lists the valid
  references; the detail of \<^verbatim>\<open>type_text\<close> is \<^verbatim>\<open>Unknown element ref: e2\<close> alone.
\<close>

theorem type_text_detail_omits_refs:
  "dict_get (tabs one_tab_snapshot) ''t1'' =
     Some \<lparr>id' = ''t1'', page = 7, url = ''https://example.com'',
           element_map = [(''e1'', ''text=\"OK\"'')], ref_counter = 1\<rparr> \<and>
   type_text one_tab_snapshot ''t1'' ''u'' ''e2'' ''hi'' (Inr ()) =
     (Inl (HTTPException 400 ''Unknown element ref: e2''), one_tab_snapshot, []) \<and>
   click one_tab_snapshot ''t1'' ''u'' ''e2'' (Inr ()) =
     (Inl (HTTPException 400
             (''Unknown element ref: e2. Available refs: ['' @ [CHR 0x27] @ ''e1'' @
              [CHR 0x27] @ '']'')),
      one_tab_snapshot, [])"
  by (simp add: one_tab_snapshot_eq type_text_def click_def get_tab_def dict_defs
      py_repr_list_def py_repr_str_def)

text \<open>
  \<^verbatim>\<open>cleanup\<close> never raises, empties the tab map, drops the context and the browser,
  and run a second time it changes nothing and closes nothing.
\<close>

lemma cleanup_never_raises: "fst (cleanup m close_res exit_result) = Inr ()"
  by (simp add: cleanup_def Let_def split: option.splits sum.splits)

lemma cleanup_state:
  "fst (snd (cleanup m close_res exit_result)) =
     m\<lparr>tabs := [],
       camoufox_ctx := None,
       browser := (case camoufox_ctx m of None \<Rightarrow> browser m | Some c \<Rightarrow> None)\<rparr>"
  by (simp add: cleanup_def Let_def split: option.splits sum.splits)

lemma cleanup_twice:
  "fst (snd (cleanup (fst (snd (cleanup m close_res exit_result))) close_res' exit_result')) =
     fst (snd (cleanup m close_res exit_result)) \<and>
   snd (snd (cleanup (fst (snd (cleanup m close_res exit_result))) close_res' exit_result')) = []"
  by (simp add: cleanup_def Let_def split: option.splits sum.splits)

text \<open>
  Claim C6, after one tab was created for the session \<^verbatim>\<open>s\<close>: \<^verbatim>\<open>cleanup\<close> returns
  without an error and empties the tab map, but the session map still holds the
  entry of \<^verbatim>\<open>s\<close>, so the registry is not empty after one run nor after two.
\<close>

theorem cleanup_keeps_session_map:
  "fst (cleanup one_tab (\<lambda>p. Inr ()) (Inr ())) = Inr () \<and>
   fst (snd (cleanup one_tab (\<lambda>p. Inr ()) (Inr ()))) =
     \<lparr>browser = None, camoufox_ctx = None, tabs = [], session_tabs = [(''s'', ''t1'')]\<rparr> \<and>
   \<not> registry_empty (run one_tab [Cleanup (\<lambda>p. Inr ()) (Inr ())]) \<and>
   \<not> registry_empty
       (run one_tab [Cleanup (\<lambda>p. Inr ()) (Inr ()), Cleanup (\<lambda>p. Inr ()) (Inr ())])"
  by (simp add: one_tab_eq run_def cleanup_def registry_empty_def Let_def)

text \<open>
  Claim C5, on the sequence \<^verbatim>\<open>create_tab\<close>, \<^verbatim>\<open>cleanup\<close>: the invariant holds after
  \<^verbatim>\<open>create_tab\<close> and fails after \<^verbatim>\<open>cleanup\<close>, where the session key \<^verbatim>\<open>s\<close> still
  resolves to \<^verbatim>\<open>t1\<close> and \<^verbatim>\<open>t1\<close> is no tab any more.
\<close>

theorem session_key_dangles_after_cleanup:
  "sessions_resolve one_tab \<and>
   \<not> sessions_resolve (run one_tab [Cleanup (\<lambda>p. Inr ()) (Inr ())]) \<and>
   get_active_tab_for_session (run one_tab [Cleanup (\<lambda>p. Inr ()) (Inr ())]) ''s'' = Some ''t1'' \<and>
   get_tab (run one_tab [Cleanup (\<lambda>p. Inr ()) (Inr ())]) ''t1'' ''u'' =
     Inl (HTTPException 404 ''Tab not found: t1. Available tabs: []'')"
  by (simp add: one_tab_eq run_def cleanup_def sessions_resolve_def Let_def dict_defs
      get_active_tab_for_session_def get_tab_def py_repr_list_def)

text \<open>
  Claim C7. After a successful \<^verbatim>\<open>create_tab\<close> with a session key, the active-tab
  lookup of the key returns the identifier of the new tab, and after a second
  successful \<^verbatim>\<open>create_tab\<close> with the same key it returns the identifier of the
  second tab.
\<close>

theorem create_tab_sets_active_tab:
  "create_tab m user1 session_key url1 env1 = (Inr tab1, m1, cs1) \<Longrightarrow>
   create_tab m1 user2 session_key url2 env2 = (Inr tab2, m2, cs2) \<Longrightarrow>
     get_active_tab_for_session m1 session_key = Some (id' tab1) \<and> id' tab1 = uuid4 env1 \<and>
     dict_get (tabs m1) (id' tab1) = Some tab1 \<and>
     get_active_tab_for_session m2 session_key = Some (id' tab2) \<and> id' tab2 = uuid4 env2 \<and>
     dict_get (tabs m2) (id' tab2) = Some tab2"
  by (auto simp: create_tab_def get_active_tab_for_session_def dict_get_set Let_def
      new_TabState_def split: prod.splits sum.splits option.splits)

lemma two_tabs_eq:
  "two_tabs =
     \<lparr>browser = Some 1, camoufox_ctx = Some (AsyncCamoufox False True),
      tabs = [(''t1'', new_TabState ''t1'' 7 ''https://example.com''),
              (''t2'', new_TabState ''t2'' 8 ''https://example.org'')],
      session_tabs = [(''s'', ''t2'')]\<rparr>"
  by (simp add: two_tabs_def one_tab_eq create_tab_def ensure_browser_def env_ok_def dict_defs
      Let_def new_TabState_def)

theorem create_tab_sets_active_tab_witness:
  "create_tab new_manager ''u'' ''s'' ''https://example.com'' (env_ok ''t1'' 7) =
     (Inr (new_TabState ''t1'' 7 ''https://example.com''), one_tab,
      [Launch (AsyncCamoufox False True), New_page 1, Page_goto 7 ''https://example.com'' 30000]) \<and>
   create_tab one_tab ''v'' ''s'' ''https://example.org'' (env_ok ''t2'' 8) =
     (Inr (new_TabState ''t2'' 8 ''https://example.org''), two_tabs,
      [New_page 1, Page_goto 8 ''https://example.org'' 30000]) \<and>
   get_active_tab_for_session one_tab ''s'' = Some ''t1'' \<and>
   get_active_tab_for_session two_tabs ''s'' = Some ''t2''"
proof -
  have h1: "create_tab new_manager ''u'' ''s'' ''https://example.com'' (env_ok ''t1'' 7) =
     (Inr (new_TabState ''t1'' 7 ''https://example.com''), one_tab,
      [Launch (AsyncCamoufox False True), New_page 1, Page_goto 7 ''https://example.com'' 30000])"
    by (simp add: one_tab_eq create_tab_def ensure_browser_def new_manager_def env_ok_def
        dict_defs Let_def new_TabState_def)
  have h2: "create_tab one_tab ''v'' ''s'' ''https://example.org'' (env_ok ''t2'' 8) =
     (Inr (new_TabState ''t2'' 8 ''https://example.org''), two_tabs,
      [New_page 1, Page_goto 8 ''https://example.org'' 30000])"
    by (simp add: two_tabs_eq one_tab_eq create_tab_def ensure_browser_def env_ok_def
        dict_defs Let_def new_TabState_def)
  show ?thesis using h1 h2 create_tab_sets_active_tab [OF h1 h2]
    by (simp add: new_TabState_def env_ok_def)
qed

text \<open>
  Claim C9. Every method that takes a \<^verbatim>\<open>user_id\<close> returns the same result, the same
  manager and makes the same calls for any two values of it.
\<close>

theorem user_id_has_no_effect:
  "create_tab m user1 session_key url' env = create_tab m user2 session_key url' env \<and>
   get_accessibility_tree m tab_id user1 snapshot_result =
     get_accessibility_tree m tab_id user2 snapshot_result \<and>
   click m tab_id user1 element_ref click_result =
     click m tab_id user2 element_ref click_result \<and>
   type_text m tab_id user1 element_ref text' fill_result =
     type_text m tab_id user2 element_ref text' fill_result \<and>
   navigate m tab_id user1 url' goto_res = navigate m tab_id user2 url' goto_res \<and>
   screenshot m tab_id user1 screenshot_result = screenshot m tab_id user2 screenshot_result \<and>
   get_tab m tab_id user1 = get_tab m tab_id user2"
  by (simp add: op_defs)

text \<open>
  Claim C10. When \<^verbatim>\<open>page.goto\<close> raises, \<^verbatim>\<open>create_tab\<close> fails and leaves the tab map
  and the session map as they were (the whole manager, when the browser was already
  launched), and \<^verbatim>\<open>navigate\<close> fails and leaves the manager, hence the tab's URL,
  element map and counter, as it was.
\<close>

theorem failed_navigation_keeps_registry:
  "goto_result env = Inl msg \<Longrightarrow>
     (\<exists>e m' cs. create_tab m user_id session_key url' env = (Inl e, m', cs) \<and>
        tabs m' = tabs m \<and> session_tabs m' = session_tabs m \<and>
        (case browser m of None \<Rightarrow> True | Some b \<Rightarrow> m' = m)) \<and>
     (\<exists>e cs. navigate m tab_id user_id url' (Inl msg) = (Inl e, m, cs))"
  by (auto simp: create_tab_def ensure_browser_def navigate_def get_tab_def Let_def
      split: prod.splits sum.splits option.splits)


theorem failed_navigation_keeps_registry_witness:
  "goto_result (env_goto_fails ''t2'' 8) = Inl ''Timeout 30000ms exceeded'' \<and>
   create_tab one_tab_snapshot ''u'' ''s'' ''https://example.org'' (env_goto_fails ''t2'' 8) =
     (Inl (HTTPException 500 ''Navigation failed: Timeout 30000ms exceeded''), one_tab_snapshot,
      [New_page 1, Page_goto 8 ''https://example.org'' 30000, Page_close 8]) \<and>
   navigate one_tab_snapshot ''t1'' ''u'' ''https://example.org'' (Inl ''Timeout 30000ms exceeded'') =
     (Inl (HTTPException 500 ''Navigation failed: Timeout 30000ms exceeded''), one_tab_snapshot,
      [Page_goto 7 ''https://example.org'' 30000])"
proof -
  have h: "goto_result (env_goto_fails ''t2'' 8) = Inl ''Timeout 30000ms exceeded''"
    by (simp add: env_goto_fails_def)
  have c: "fst (create_tab one_tab_snapshot ''u'' ''s'' ''https://example.org''
                  (env_goto_fails ''t2'' 8)) =
             Inl (HTTPException 500 ''Navigation failed: Timeout 30000ms exceeded'') \<and>
           snd (snd (create_tab one_tab_snapshot ''u'' ''s'' ''https://example.org''
                  (env_goto_fails ''t2'' 8))) =
             [New_page 1, Page_goto 8 ''https://example.org'' 30000, Page_close 8]"
    by (simp add: one_tab_snapshot_eq create_tab_def ensure_browser_def env_goto_fails_def Let_def)
  have n: "fst (navigate one_tab_snapshot ''t1'' ''u'' ''https://example.org''
                  (Inl ''Timeout 30000ms exceeded'')) =
             Inl (HTTPException 500 ''Navigation failed: Timeout 30000ms exceeded'') \<and>
           snd (snd (navigate one_tab_snapshot ''t1'' ''u'' ''https://example.org''
                  (Inl ''Timeout 30000ms exceeded''))) =
             [Page_goto 7 ''https://example.org'' 30000]"
    by (simp add: one_tab_snapshot_eq navigate_def get_tab_def dict_defs)
  have b: "browser one_tab_snapshot = Some 1"
    by (simp add: one_tab_snapshot_eq)
  show ?thesis
    using h c n b
      failed_navigation_keeps_registry [OF h, where m = one_tab_snapshot and user_id = "''u''"
        and session_key = "''s''" and url' = "''https://example.org''" and tab_id = "''t1''"]
    by auto
qed

text \<open>
  The invariant of the session map holds for the new manager and is kept by every
  request other than \<^verbatim>\<open>cleanup\<close>.
\<close>

lemma sessions_resolve_iff:
  "sessions_resolve m =
     (\<forall>k t. dict_get (session_tabs m) k = Some t \<longrightarrow> dict_get (tabs m) t \<noteq> None)"
proof -
  have "\<And>k t. map_of (session_tabs m) k = Some t \<Longrightarrow> k \<in> fst ` set (session_tabs m)"
    by (metis domI dom_map_of_conv_image_fst)
  then show ?thesis
    by (auto simp: sessions_resolve_def dict_defs list_all_iff split: option.splits) force
qed

lemma dict_set_dom: "dict_get d t \<noteq> None \<Longrightarrow> dict_get (dict_set k v d) t \<noteq> None"
  by (simp add: dict_defs AList.update_conv')

lemma sessions_resolve_new_manager: "sessions_resolve new_manager"
  by (simp add: sessions_resolve_def new_manager_def dict_defs)

lemma sessions_resolve_create_tab:
  assumes "sessions_resolve m"
  shows "sessions_resolve (fst (snd (create_tab m user_id session_key url' env)))"
proof -
  have e: "\<And>r m1 cs. ensure_browser m (launch_result env) = (r, m1, cs) \<Longrightarrow>
             tabs m1 = tabs m \<and> session_tabs m1 = session_tabs m"
    by (auto simp: ensure_browser_def Let_def split: option.splits sum.splits)
  obtain r m1 cs where a: "ensure_browser m (launch_result env) = (r, m1, cs)"
    by (cases "ensure_browser m (launch_result env)")
  have i: "sessions_resolve m1"
    using assms e [OF a] by (simp add: sessions_resolve_iff)
  have s: "sessions_resolve
             (m1\<lparr>tabs := dict_set t tab (tabs m1),
                 session_tabs := dict_set session_key t (session_tabs m1)\<rparr>)" for t tab
    using i by (auto simp: sessions_resolve_iff dict_defs AList.update_conv' split: if_splits)
  show ?thesis
    using a i s
    by (auto simp: create_tab_def Let_def split: sum.splits option.splits)
qed

lemma sessions_resolve_store_tab:
  "sessions_resolve m \<Longrightarrow> sessions_resolve (store_tab m tab_id tab)"
  by (auto simp: sessions_resolve_iff store_tab_def dict_defs AList.update_conv')

lemma sessions_resolve_step:
  assumes "sessions_resolve m" and "\<not> is_cleanup req"
  shows "sessions_resolve (step m req)"
proof (cases req)
  case (Create_tab user_id session_key url' env)
  then show ?thesis using assms sessions_resolve_create_tab by simp
next
  case (Get_accessibility_tree tab_id user_id r)
  then show ?thesis using assms
    by (auto simp: get_accessibility_tree_def sessions_resolve_store_tab
        split: sum.splits option.splits prod.splits)
next
  case (Click tab_id user_id element_ref r)
  then show ?thesis using assms
    by (auto simp: click_def split: sum.splits option.splits)
next
  case (Type_text tab_id user_id element_ref text' r)
  then show ?thesis using assms
    by (auto simp: type_text_def split: sum.splits option.splits)
next
  case (Navigate tab_id user_id url' r)
  then show ?thesis using assms
    by (auto simp: navigate_def sessions_resolve_store_tab split: sum.splits)
next
  case (Screenshot tab_id user_id r)
  then show ?thesis using assms
    by (auto simp: screenshot_def split: sum.splits)
next
  case (Cleanup close_res exit_result)
  then show ?thesis using assms by simp
qed

lemma sessions_resolve_run:
  "sessions_resolve m \<Longrightarrow> list_all (\<lambda>req. \<not> is_cleanup req) reqs \<Longrightarrow>
     sessions_resolve (run m reqs)"
  unfolding run_def
  by (induction reqs arbitrary: m) (simp_all add: sessions_resolve_step)

end
